theory Spec2Isabelle
  imports Main "HOL-Library.Word"
begin

section \<open>The NumPy 2 compatibility header \<open>npy_2_compat.h\<close>\<close>

text \<open>
  The header is a chain of preprocessor conditionals over three version macros, a handful
  of object-like macros, one inline initialisation helper and one inline accessor that
  reads a member of a descriptor struct. The model keeps that shape: the macros the
  translation unit holds when the header is included are a record, the group of the
  \<open>#if\<close>/\<open>#elif\<close>/\<open>#else\<close> chain that gets compiled is a datatype, every macro and
  inline function is a HOL function with one equation per group, and the process state
  that the C code reads (the API table pointer, the runtime version variable, memory) is
  a record passed explicitly.
\<close>

subsection \<open>What the translation unit provides\<close>

type_synonym addr = nat
type_synonym memory = "addr \<Rightarrow> 8 word"

datatype byte_order = Little_Endian | Big_Endian

text \<open>
  Of a descriptor struct only the member \<open>flags\<close> is read here: its offset in the
  struct and the size in bytes of its integer type.
\<close>

record member_decl =
  member_offset :: nat
  member_size :: nat

text \<open>
  \<open>NPY_FEATURE_VERSION\<close> is \<open>None\<close> when the macro is not defined (the header tests it
  with \<open>#ifndef\<close>). The other entries are declarations of the including headers that
  the file refers to and does not define itself: the ABI version, the threshold
  \<open>NPY_2_0_API_VERSION\<close> as NumPy 2 headers define it, \<open>NPY_MIN_INT\<close>, the type
  numbers \<open>NPY_LONG\<close> and \<open>NPY_INTP\<close> (C \<open>int\<close> values, which the including
  headers may define as the same number), the two
  constants for the number of types (absent when not declared), the member \<open>flags\<close>
  of the structs named \<open>PyArray_Descr\<close> and \<open>PyArray_DescrProto\<close>, and the byte order
  of the platform.
\<close>

record build_env =
  NPY_FEATURE_VERSION :: "int option"
  NPY_ABI_VERSION :: int
  host_NPY_2_0_API_VERSION :: int
  NPY_MIN_INT :: int
  NPY_LONG :: int
  NPY_INTP :: int
  host_NPY_NTYPES :: "int option"
  host_NPY_NTYPES_LEGACY :: "int option"
  host_PyArray_Descr :: member_decl
  host_PyArray_DescrProto :: member_decl
  host_byte_order :: byte_order

text \<open>
  The state of the running process: the API table pointer \<open>PyArray_API\<close> (\<open>0\<close> is
  \<open>NULL\<close>), the variable \<open>PyArray_RUNTIME_VERSION\<close> that NumPy 2 headers declare and
  the import fills in, and the bytes of memory.
\<close>

record proc_state =
  PyArray_API :: addr
  host_PyArray_RUNTIME_VERSION :: int
  mem :: memory

subsection \<open>Lines 44 to 64: the guard, the threshold, the runtime version\<close>

datatype compile_error = Hash_error string

definition feature_version_message :: string where
  "feature_version_message =
     ''The NumPy 2 compat header requires `import_array()` for which '' @
     ''the `ndarraytypes.h` header include is not sufficient.  Please '' @
     ''include it after `numpy/ndarrayobject.h` or similar.'' @ [CHR 0x0A] @
     ''To simplify includsion, you may use `PyArray_ImportNumPy()` '' @
     ''which is defined in the compat header and is lightweight (can be).''"

text \<open>An identifier in an \<open>#if\<close> expression has its macro value, and \<open>0\<close> if it has none.\<close>

definition pp_value :: "int option \<Rightarrow> int" where
  "pp_value m = (case m of None \<Rightarrow> 0 | Some v \<Rightarrow> v)"

text \<open>
  Line 57 defines the threshold as \<open>0x00000012\<close> when the ABI version is below
  \<open>0x02000000\<close>; otherwise the threshold is the one of the including headers.
\<close>

definition NPY_2_0_API_VERSION :: "build_env \<Rightarrow> int" where
  "NPY_2_0_API_VERSION b =
     (if NPY_ABI_VERSION b < 0x02000000 then 0x00000012 else host_NPY_2_0_API_VERSION b)"

text \<open>
  Line 63 makes \<open>PyArray_RUNTIME_VERSION\<close> the feature version when the ABI version is
  below \<open>0x02000000\<close>; otherwise the name is the variable of the process state.
\<close>

definition PyArray_RUNTIME_VERSION :: "build_env \<Rightarrow> proc_state \<Rightarrow> int" where
  "PyArray_RUNTIME_VERSION b s =
     (if NPY_ABI_VERSION b < 0x02000000 then pp_value (NPY_FEATURE_VERSION b)
      else host_PyArray_RUNTIME_VERSION s)"

subsection \<open>Lines 105 to 148: the three groups\<close>

datatype path = New_Only | Legacy_Only | Dual_Path

definition gate :: "build_env \<Rightarrow> path" where
  "gate b =
     (if pp_value (NPY_FEATURE_VERSION b) \<ge> NPY_2_0_API_VERSION b then New_Only
      else if NPY_ABI_VERSION b < 0x02000000 then Legacy_Only
      else Dual_Path)"

text \<open>Including the header: the \<open>#error\<close> of line 45, or the group that is compiled.\<close>

definition npy_2_compat_h :: "build_env \<Rightarrow> compile_error + path" where
  "npy_2_compat_h b =
     (if NPY_FEATURE_VERSION b = None then Inl (Hash_error feature_version_message)
      else Inr (gate b))"

datatype symbol =
  Sym_NPY_DEFAULT_INT | Sym_NPY_RAVEL_AXIS | Sym_NPY_MAXARGS | Sym_PyDataType_FLAGS
  | Sym_NPY_NTYPES | Sym_PyArray_DescrProto

text \<open>The names each group defines, in the order of the file.\<close>

fun group_symbols :: "path \<Rightarrow> symbol list" where
  "group_symbols New_Only =
     [Sym_NPY_DEFAULT_INT, Sym_NPY_RAVEL_AXIS, Sym_NPY_MAXARGS, Sym_PyDataType_FLAGS]"
| "group_symbols Legacy_Only =
     [Sym_NPY_DEFAULT_INT, Sym_NPY_RAVEL_AXIS, Sym_NPY_MAXARGS, Sym_PyDataType_FLAGS,
      Sym_NPY_NTYPES, Sym_PyArray_DescrProto]"
| "group_symbols Dual_Path =
     [Sym_NPY_DEFAULT_INT, Sym_NPY_RAVEL_AXIS, Sym_NPY_MAXARGS, Sym_PyDataType_FLAGS]"

text \<open>The groups, in file order, that are compiled for a build and define a name.\<close>

definition defined_by :: "build_env \<Rightarrow> symbol \<Rightarrow> path list" where
  "defined_by b name =
     filter (\<lambda>p. gate b = p \<and> List.member (group_symbols p) name)
       [New_Only, Legacy_Only, Dual_Path]"

definition version_sensitive :: "symbol list" where
  "version_sensitive =
     [Sym_NPY_DEFAULT_INT, Sym_NPY_RAVEL_AXIS, Sym_NPY_MAXARGS, Sym_PyDataType_FLAGS]"

fun NPY_DEFAULT_INT :: "path \<Rightarrow> build_env \<Rightarrow> proc_state \<Rightarrow> int" where
  "NPY_DEFAULT_INT New_Only b s = NPY_INTP b"
| "NPY_DEFAULT_INT Legacy_Only b s = NPY_LONG b"
| "NPY_DEFAULT_INT Dual_Path b s =
     (if PyArray_RUNTIME_VERSION b s \<ge> NPY_2_0_API_VERSION b then NPY_INTP b
      else NPY_LONG b)"

fun NPY_RAVEL_AXIS :: "path \<Rightarrow> build_env \<Rightarrow> proc_state \<Rightarrow> int" where
  "NPY_RAVEL_AXIS New_Only b s = NPY_MIN_INT b"
| "NPY_RAVEL_AXIS Legacy_Only b s = 32"
| "NPY_RAVEL_AXIS Dual_Path b s =
     (if PyArray_RUNTIME_VERSION b s \<ge> NPY_2_0_API_VERSION b then - 1 else 32)"

fun NPY_MAXARGS :: "path \<Rightarrow> build_env \<Rightarrow> proc_state \<Rightarrow> int" where
  "NPY_MAXARGS New_Only b s = 64"
| "NPY_MAXARGS Legacy_Only b s = 32"
| "NPY_MAXARGS Dual_Path b s =
     (if PyArray_RUNTIME_VERSION b s \<ge> NPY_2_0_API_VERSION b then 64 else 32)"

text \<open>
  Lines 127 and 128: in the legacy-only group \<open>NPY_NTYPES\<close> is replaced by
  \<open>NPY_NTYPES_LEGACY\<close> and \<open>PyArray_DescrProto\<close> by \<open>PyArray_Descr\<close>; in the other
  groups the names keep the declaration of the including headers.
\<close>

fun NPY_NTYPES :: "path \<Rightarrow> build_env \<Rightarrow> int option" where
  "NPY_NTYPES Legacy_Only b = host_NPY_NTYPES_LEGACY b"
| "NPY_NTYPES p b = host_NPY_NTYPES b"

fun PyArray_DescrProto :: "path \<Rightarrow> build_env \<Rightarrow> member_decl" where
  "PyArray_DescrProto Legacy_Only b = host_PyArray_Descr b"
| "PyArray_DescrProto p b = host_PyArray_DescrProto b"

subsection \<open>Reading the member \<open>flags\<close>\<close>

text \<open>The value, as an unsigned number, of \<open>n\<close> bytes at an address.\<close>

fun load_le :: "memory \<Rightarrow> addr \<Rightarrow> nat \<Rightarrow> nat" where
  "load_le m a 0 = 0"
| "load_le m a (Suc n) = unat (m a) + 256 * load_le m (Suc a) n"

fun load_be :: "memory \<Rightarrow> addr \<Rightarrow> nat \<Rightarrow> nat" where
  "load_be m a 0 = 0"
| "load_be m a (Suc n) = unat (m a) * 256 ^ n + load_be m (Suc a) n"

text \<open>\<open>((T *)dtype)->flags\<close> for a struct \<open>T\<close> that declares the member as \<open>d\<close>.\<close>

definition member_flags :: "build_env \<Rightarrow> proc_state \<Rightarrow> member_decl \<Rightarrow> addr \<Rightarrow> nat" where
  "member_flags b s d dtype =
     (case host_byte_order b of
        Little_Endian \<Rightarrow> load_le (mem s) (dtype + member_offset d) (member_size d)
      | Big_Endian \<Rightarrow> load_be (mem s) (dtype + member_offset d) (member_size d))"

text \<open>
  The cast \<open>(unsigned char)\<close> keeps the value modulo 256, whatever the integer type of
  the member; the return type \<open>npy_uint64\<close> widens it.
\<close>

definition unsigned_char :: "nat \<Rightarrow> 8 word" where
  "unsigned_char v = of_nat v"

definition npy_uint64 :: "8 word \<Rightarrow> 64 word" where
  "npy_uint64 c = ucast c"

fun PyDataType_FLAGS :: "path \<Rightarrow> build_env \<Rightarrow> proc_state \<Rightarrow> addr \<Rightarrow> 64 word" where
  "PyDataType_FLAGS New_Only b s dtype =
     npy_uint64 (unsigned_char (member_flags b s (host_PyArray_Descr b) dtype))"
| "PyDataType_FLAGS Legacy_Only b s dtype =
     npy_uint64 (unsigned_char (member_flags b s (host_PyArray_Descr b) dtype))"
| "PyDataType_FLAGS Dual_Path b s dtype =
     (if PyArray_RUNTIME_VERSION b s \<ge> NPY_2_0_API_VERSION b
      then npy_uint64 (unsigned_char (member_flags b s (host_PyArray_Descr b) dtype))
      else npy_uint64 (unsigned_char
             (member_flags b s (PyArray_DescrProto Dual_Path b) dtype)))"

subsection \<open>Lines 71 to 82: the initialisation helper\<close>

text \<open>
  The macro \<open>import_array1\<close> belongs to the including headers. As a statement in a
  function that returns \<open>int\<close> it changes the state and either makes the function
  return a value or falls through (\<open>None\<close>); the helper exists when the macro does.
\<close>

type_synonym import_macro = "int \<Rightarrow> proc_state \<Rightarrow> int option \<times> proc_state"

definition PyArray_ImportNumPyAPI :: "import_macro \<Rightarrow> proc_state \<Rightarrow> int \<times> proc_state" where
  "PyArray_ImportNumPyAPI import_array1 s =
     (if PyArray_API s = 0 then
        (case import_array1 (- 1) s of
           (Some r, s') \<Rightarrow> (r, s')
         | (None, s') \<Rightarrow> (0, s'))
      else (0, s))"

text \<open>Calling the helper \<open>n\<close> times in a row: the values returned and the last state.\<close>

fun import_calls :: "import_macro \<Rightarrow> nat \<Rightarrow> proc_state \<Rightarrow> int list \<times> proc_state" where
  "import_calls imp 0 s = ([], s)"
| "import_calls imp (Suc n) s =
     (case PyArray_ImportNumPyAPI imp s of
        (r, s') \<Rightarrow> (case import_calls imp n s' of (rs, s'') \<Rightarrow> (r # rs, s'')))"

subsection \<open>Sequences of uses\<close>

text \<open>
  What a consumer does with the header at run time: read the runtime version, call the
  helper, or use one of the four accessors. Only the helper writes to the state; the
  macros and \<open>PyDataType_FLAGS\<close> read it.
\<close>

datatype call =
  Read_RUNTIME_VERSION | Call_ImportNumPyAPI
  | Use_DEFAULT_INT | Use_RAVEL_AXIS | Use_MAXARGS | Use_FLAGS addr

fun call_effect :: "import_macro \<Rightarrow> call \<Rightarrow> proc_state \<Rightarrow> proc_state" where
  "call_effect imp Call_ImportNumPyAPI s = snd (PyArray_ImportNumPyAPI imp s)"
| "call_effect imp c s = s"

fun is_read :: "call \<Rightarrow> bool" where
  "is_read Read_RUNTIME_VERSION = True"
| "is_read c = False"

text \<open>The values that the reads of \<open>PyArray_RUNTIME_VERSION\<close> in a sequence give.\<close>

fun version_reads :: "build_env \<Rightarrow> import_macro \<Rightarrow> call list \<Rightarrow> proc_state \<Rightarrow> int list" where
  "version_reads b imp [] s = []"
| "version_reads b imp (c # cs) s =
     (if is_read c then PyArray_RUNTIME_VERSION b s # version_reads b imp cs s
      else version_reads b imp cs (call_effect imp c s))"

subsection \<open>Encoding of a C \<open>int\<close>\<close>

definition c_int :: "int \<Rightarrow> 32 word" where
  "c_int v = word_of_int v"

subsection \<open>Example builds and an example process\<close>

text \<open>
  Three builds on a 64-bit little-endian platform: one against 1.x headers, one against
  2.x headers for the 2.0 feature set, and one against 2.x headers for a 1.x feature
  set. In the 1.x struct \<open>flags\<close> is one byte at offset 27; in the 2.x struct of the
  example it is eight bytes at offset 32. A \<open>long\<close> has the size of a pointer there, and
  \<open>NPY_INTP\<close> is the same type number as \<open>NPY_LONG\<close>, 7.
\<close>

definition legacy_layout :: member_decl where
  "legacy_layout = \<lparr>member_offset = 27, member_size = 1\<rparr>"

definition current_layout :: member_decl where
  "current_layout = \<lparr>member_offset = 32, member_size = 8\<rparr>"

definition legacy_build :: build_env where
  "legacy_build =
     \<lparr>NPY_FEATURE_VERSION = Some 0x0000000d, NPY_ABI_VERSION = 0x01000009,
      host_NPY_2_0_API_VERSION = 0, NPY_MIN_INT = - 2147483648,
      NPY_LONG = 7, NPY_INTP = 7,
      host_NPY_NTYPES = Some 24, host_NPY_NTYPES_LEGACY = None,
      host_PyArray_Descr = legacy_layout, host_PyArray_DescrProto = legacy_layout,
      host_byte_order = Little_Endian\<rparr>"

definition new_build :: build_env where
  "new_build =
     \<lparr>NPY_FEATURE_VERSION = Some 0x00000012, NPY_ABI_VERSION = 0x02000000,
      host_NPY_2_0_API_VERSION = 0x00000012, NPY_MIN_INT = - 2147483648,
      NPY_LONG = 7, NPY_INTP = 7,
      host_NPY_NTYPES = None, host_NPY_NTYPES_LEGACY = Some 24,
      host_PyArray_Descr = current_layout, host_PyArray_DescrProto = legacy_layout,
      host_byte_order = Little_Endian\<rparr>"

definition dual_build :: build_env where
  "dual_build =
     \<lparr>NPY_FEATURE_VERSION = Some 0x0000000d, NPY_ABI_VERSION = 0x02000000,
      host_NPY_2_0_API_VERSION = 0x00000012, NPY_MIN_INT = - 2147483648,
      NPY_LONG = 7, NPY_INTP = 7,
      host_NPY_NTYPES = None, host_NPY_NTYPES_LEGACY = Some 24,
      host_PyArray_Descr = current_layout, host_PyArray_DescrProto = legacy_layout,
      host_byte_order = Little_Endian\<rparr>"

text \<open>
  The dual build on a 64-bit platform whose \<open>long\<close> has 32 bits: \<open>NPY_INTP\<close> is the
  type number of \<open>long long\<close>, 9.
\<close>

definition dual_build_llp64 :: build_env where
  "dual_build_llp64 = dual_build\<lparr>NPY_INTP := 9\<rparr>"

definition undefined_build :: build_env where
  "undefined_build = legacy_build\<lparr>NPY_FEATURE_VERSION := None\<rparr>"

text \<open>
  A process with the API table imported and a descriptor at address 1000 whose byte at
  offset 27 is \<open>0x1B\<close> and whose bytes from offset 32 are \<open>0x3F\<close>, \<open>0x01\<close>.
\<close>

definition example_mem :: memory where
  "example_mem a = (if a = 1027 then 0x1B else if a = 1032 then 0x3F
                    else if a = 1033 then 0x01 else 0)"

definition legacy_process :: proc_state where
  "legacy_process =
     \<lparr>PyArray_API = 4096, host_PyArray_RUNTIME_VERSION = 0x00000011, mem = example_mem\<rparr>"

definition current_process :: proc_state where
  "current_process =
     \<lparr>PyArray_API = 4096, host_PyArray_RUNTIME_VERSION = 0x00000012, mem = example_mem\<rparr>"

definition fresh_process :: proc_state where
  "fresh_process =
     \<lparr>PyArray_API = 0, host_PyArray_RUNTIME_VERSION = 0, mem = example_mem\<rparr>"

text \<open>An example of the import macro: it sets the table and the runtime version.\<close>

definition example_import :: import_macro where
  "example_import ret s =
     (None, s\<lparr>PyArray_API := 4096, host_PyArray_RUNTIME_VERSION := 0x00000012\<rparr>)"

text \<open>An import that fails: the macro returns its argument and the table stays unset.\<close>

definition failing_import :: import_macro where
  "failing_import ret s = (Some ret, s)"

section \<open>The version gate\<close>

text \<open>
  C2. For every build, whatever the feature version, the ABI version and the threshold,
  exactly one of the three groups is compiled, and each of the four version-sensitive
  names is defined by that group and by no other. The group is the new-only one when the
  feature version reaches the threshold \<open>NPY_2_0_API_VERSION\<close>; otherwise the legacy-only
  one when the ABI version is below the 2.0 ABI \<open>0x02000000\<close>; otherwise the dual one.
\<close>

theorem gate_selects_exactly_one:
  "(\<exists>!p. gate b = p)
   \<and> (List.member version_sensitive name \<longrightarrow>
        defined_by b name = [gate b] \<and> length (defined_by b name) = 1)
   \<and> (pp_value (NPY_FEATURE_VERSION b) \<ge> NPY_2_0_API_VERSION b \<longrightarrow> gate b = New_Only)
   \<and> (pp_value (NPY_FEATURE_VERSION b) < NPY_2_0_API_VERSION b
        \<and> NPY_ABI_VERSION b < 0x02000000 \<longrightarrow> gate b = Legacy_Only)
   \<and> (pp_value (NPY_FEATURE_VERSION b) < NPY_2_0_API_VERSION b
        \<and> NPY_ABI_VERSION b \<ge> 0x02000000 \<longrightarrow> gate b = Dual_Path)"
proof -
  have one: "\<exists>!p. gate b = p" by simp
  have defs: "defined_by b name = [gate b]" if "List.member version_sensitive name"
    using that by (cases "gate b") (auto simp: defined_by_def version_sensitive_def)
  show ?thesis
    using one defs by (auto simp: gate_def)
qed

theorem gate_selects_exactly_one_witness:
  "List.member version_sensitive Sym_NPY_RAVEL_AXIS
   \<and> defined_by dual_build Sym_NPY_RAVEL_AXIS = [Dual_Path]
   \<and> defined_by legacy_build Sym_NPY_RAVEL_AXIS = [Legacy_Only]
   \<and> defined_by new_build Sym_NPY_RAVEL_AXIS = [New_Only]"
  using gate_selects_exactly_one [of dual_build Sym_NPY_RAVEL_AXIS]
    gate_selects_exactly_one [of legacy_build Sym_NPY_RAVEL_AXIS]
    gate_selects_exactly_one [of new_build Sym_NPY_RAVEL_AXIS]
  by (simp add: version_sensitive_def dual_build_def legacy_build_def new_build_def
      pp_value_def NPY_2_0_API_VERSION_def)

section \<open>Values of the example builds\<close>

lemma gate_dual_build: "gate dual_build = Dual_Path"
  by (simp add: gate_def dual_build_def pp_value_def NPY_2_0_API_VERSION_def)

lemma gate_legacy_build: "gate legacy_build = Legacy_Only"
  by (simp add: gate_def legacy_build_def pp_value_def NPY_2_0_API_VERSION_def)

lemma gate_new_build: "gate new_build = New_Only"
  by (simp add: gate_def new_build_def pp_value_def NPY_2_0_API_VERSION_def)

lemma threshold_dual_build: "NPY_2_0_API_VERSION dual_build = 0x00000012"
  by (simp add: dual_build_def NPY_2_0_API_VERSION_def)

lemma runtime_dual_current: "PyArray_RUNTIME_VERSION dual_build current_process = 0x00000012"
  by (simp add: dual_build_def PyArray_RUNTIME_VERSION_def current_process_def)

lemma runtime_dual_legacy: "PyArray_RUNTIME_VERSION dual_build legacy_process = 0x00000011"
  by (simp add: dual_build_def PyArray_RUNTIME_VERSION_def legacy_process_def)

lemma flags_legacy_example:
  "PyDataType_FLAGS Legacy_Only legacy_build legacy_process 1000 = 0x1B"
  by (simp add: legacy_build_def legacy_process_def legacy_layout_def member_flags_def
      example_mem_def unsigned_char_def npy_uint64_def)

section \<open>The guard on the feature version\<close>

text \<open>
  C5. When \<open>NPY_FEATURE_VERSION\<close> is not defined, including the header ends in the
  \<open>#error\<close> of line 45 with its message, and no group is selected: no feature version
  is put in the place of the missing one.
\<close>

theorem missing_feature_version_fails:
  assumes "NPY_FEATURE_VERSION b = None"
  shows "npy_2_compat_h b = Inl (Hash_error feature_version_message)
       \<and> (\<forall>p. npy_2_compat_h b \<noteq> Inr p)"
  using assms by (simp add: npy_2_compat_h_def)

theorem missing_feature_version_fails_witness:
  "NPY_FEATURE_VERSION undefined_build = None
   \<and> npy_2_compat_h undefined_build = Inl (Hash_error feature_version_message)
   \<and> npy_2_compat_h legacy_build = Inr Legacy_Only"
proof -
  have u: "NPY_FEATURE_VERSION undefined_build = None"
    by (simp add: undefined_build_def)
  have l: "npy_2_compat_h legacy_build = Inr Legacy_Only"
    by (simp add: npy_2_compat_h_def gate_legacy_build) (simp add: legacy_build_def)
  show ?thesis
    using missing_feature_version_fails [OF u] u l by simp
qed

section \<open>The dual-path macros\<close>

lemma gate_dual_build_llp64: "gate dual_build_llp64 = Dual_Path"
  by (simp add: gate_def dual_build_llp64_def dual_build_def pp_value_def
      NPY_2_0_API_VERSION_def)

lemma threshold_dual_build_llp64: "NPY_2_0_API_VERSION dual_build_llp64 = 0x00000012"
  by (simp add: dual_build_llp64_def dual_build_def NPY_2_0_API_VERSION_def)

lemma runtime_llp64_current:
  "PyArray_RUNTIME_VERSION dual_build_llp64 current_process = 0x00000012"
  by (simp add: dual_build_llp64_def dual_build_def PyArray_RUNTIME_VERSION_def
      current_process_def)

lemma runtime_llp64_legacy:
  "PyArray_RUNTIME_VERSION dual_build_llp64 legacy_process = 0x00000011"
  by (simp add: dual_build_llp64_def dual_build_def PyArray_RUNTIME_VERSION_def
      legacy_process_def)

lemma type_numbers_llp64: "NPY_INTP dual_build_llp64 = 9" "NPY_LONG dual_build_llp64 = 7"
  by (simp_all add: dual_build_llp64_def dual_build_def)

lemma type_numbers_dual_build: "NPY_INTP dual_build = 7" "NPY_LONG dual_build = 7"
  by (simp_all add: dual_build_def)

text \<open>
  C9. In a dual-path build \<open>NPY_DEFAULT_INT\<close> is the type number \<open>NPY_INTP\<close> when the
  runtime version is at or above the threshold and the type number \<open>NPY_LONG\<close> when it
  is below. Where the two numbers differ, the value is \<open>NPY_INTP\<close> exactly when the
  runtime is at or above the threshold and \<open>NPY_LONG\<close> exactly when it is below; where
  they are the same number, the value is that number under every runtime.
\<close>

theorem NPY_DEFAULT_INT_dual:
  assumes "gate b = Dual_Path"
  shows "NPY_DEFAULT_INT (gate b) b s =
           (if PyArray_RUNTIME_VERSION b s \<ge> NPY_2_0_API_VERSION b then NPY_INTP b
            else NPY_LONG b)
       \<and> (NPY_DEFAULT_INT (gate b) b s = NPY_INTP b \<or> NPY_DEFAULT_INT (gate b) b s = NPY_LONG b)
       \<and> (NPY_INTP b \<noteq> NPY_LONG b \<longrightarrow>
            (NPY_DEFAULT_INT (gate b) b s = NPY_INTP b
               \<longleftrightarrow> PyArray_RUNTIME_VERSION b s \<ge> NPY_2_0_API_VERSION b)
          \<and> (NPY_DEFAULT_INT (gate b) b s = NPY_LONG b
               \<longleftrightarrow> PyArray_RUNTIME_VERSION b s < NPY_2_0_API_VERSION b))
       \<and> (NPY_INTP b = NPY_LONG b \<longrightarrow> NPY_DEFAULT_INT (gate b) b s = NPY_INTP b)"
  using assms by auto

theorem NPY_DEFAULT_INT_dual_witness:
  "gate dual_build_llp64 = Dual_Path
   \<and> NPY_INTP dual_build_llp64 \<noteq> NPY_LONG dual_build_llp64
   \<and> NPY_DEFAULT_INT (gate dual_build_llp64) dual_build_llp64 current_process = 9
   \<and> NPY_DEFAULT_INT (gate dual_build_llp64) dual_build_llp64 legacy_process = 7
   \<and> gate dual_build = Dual_Path
   \<and> NPY_INTP dual_build = NPY_LONG dual_build
   \<and> NPY_DEFAULT_INT (gate dual_build) dual_build current_process = 7
   \<and> NPY_DEFAULT_INT (gate dual_build) dual_build legacy_process = 7"
  using NPY_DEFAULT_INT_dual [OF gate_dual_build_llp64, of current_process]
    NPY_DEFAULT_INT_dual [OF gate_dual_build_llp64, of legacy_process]
    NPY_DEFAULT_INT_dual [OF gate_dual_build, of current_process]
    NPY_DEFAULT_INT_dual [OF gate_dual_build, of legacy_process]
  by (simp add: gate_dual_build_llp64 threshold_dual_build_llp64 runtime_llp64_current
      runtime_llp64_legacy type_numbers_llp64 gate_dual_build threshold_dual_build
      runtime_dual_current runtime_dual_legacy type_numbers_dual_build)

text \<open>
  Where \<open>long\<close> has the size of a pointer, the dual build under a runtime below the
  threshold returns the number that is also \<open>NPY_INTP\<close>: the value does not tell the
  two runtimes apart there.
\<close>

theorem NPY_DEFAULT_INT_same_number:
  "gate dual_build = Dual_Path
   \<and> \<not> (NPY_DEFAULT_INT (gate dual_build) dual_build legacy_process = NPY_INTP dual_build
          \<longleftrightarrow> PyArray_RUNTIME_VERSION dual_build legacy_process
                \<ge> NPY_2_0_API_VERSION dual_build)"
  by (simp add: gate_dual_build threshold_dual_build runtime_dual_legacy
      type_numbers_dual_build)

text \<open>
  C3. With the threshold at \<open>0x00000012\<close>, a dual-path build gives \<open>NPY_RAVEL_AXIS\<close> the
  value 32 under a runtime below the threshold and the value \<open>-1\<close> under a runtime at or
  above it, and the two values have different encodings as a C \<open>int\<close>. The dual path is
  the only group where the value depends on the runtime.
\<close>

theorem NPY_RAVEL_AXIS_sentinels:
  assumes "NPY_2_0_API_VERSION b = 0x00000012" and "gate b = Dual_Path"
  shows "(PyArray_RUNTIME_VERSION b s < 0x00000012 \<longrightarrow> NPY_RAVEL_AXIS (gate b) b s = 32)
       \<and> (PyArray_RUNTIME_VERSION b s \<ge> 0x00000012 \<longrightarrow> NPY_RAVEL_AXIS (gate b) b s = - 1)
       \<and> (PyArray_RUNTIME_VERSION b s1 < 0x00000012 \<and> PyArray_RUNTIME_VERSION b s2 \<ge> 0x00000012
            \<longrightarrow> c_int (NPY_RAVEL_AXIS (gate b) b s1) \<noteq> c_int (NPY_RAVEL_AXIS (gate b) b s2))"
  using assms by (auto simp: c_int_def)

theorem NPY_RAVEL_AXIS_sentinels_witness:
  "NPY_2_0_API_VERSION dual_build = 0x00000012 \<and> gate dual_build = Dual_Path
   \<and> PyArray_RUNTIME_VERSION dual_build legacy_process < 0x00000012
   \<and> PyArray_RUNTIME_VERSION dual_build current_process \<ge> 0x00000012
   \<and> NPY_RAVEL_AXIS (gate dual_build) dual_build legacy_process = 32
   \<and> NPY_RAVEL_AXIS (gate dual_build) dual_build current_process = - 1
   \<and> c_int (NPY_RAVEL_AXIS (gate dual_build) dual_build legacy_process) = 0x00000020
   \<and> c_int (NPY_RAVEL_AXIS (gate dual_build) dual_build current_process) = 0xFFFFFFFF"
  using NPY_RAVEL_AXIS_sentinels [OF threshold_dual_build gate_dual_build,
      of legacy_process legacy_process current_process]
    NPY_RAVEL_AXIS_sentinels [OF threshold_dual_build gate_dual_build,
      of current_process legacy_process current_process]
  by (simp add: gate_dual_build threshold_dual_build runtime_dual_current runtime_dual_legacy
      c_int_def)

lemma non_dual_RAVEL_AXIS_fixed:
  "p \<noteq> Dual_Path \<Longrightarrow> NPY_RAVEL_AXIS p b s1 = NPY_RAVEL_AXIS p b s2"
  by (cases p) simp_all

subsection \<open>The dual path against the two fixed groups\<close>

text \<open>
  Under a runtime below the threshold the dual path gives the values of the legacy-only
  group and reads \<open>flags\<close> through \<open>PyArray_DescrProto\<close>. Under a runtime at or above
  the threshold it agrees with the new-only group on \<open>NPY_DEFAULT_INT\<close>, \<open>NPY_MAXARGS\<close>
  and \<open>PyDataType_FLAGS\<close>; its \<open>NPY_RAVEL_AXIS\<close> is \<open>-1\<close>, which is the new-only value
  only if \<open>NPY_MIN_INT\<close> is \<open>-1\<close>.
\<close>

lemma dual_path_legacy_branch:
  assumes "gate b = Dual_Path" and "PyArray_RUNTIME_VERSION b s < NPY_2_0_API_VERSION b"
  shows "NPY_DEFAULT_INT (gate b) b s = NPY_DEFAULT_INT Legacy_Only b s"
    and "NPY_RAVEL_AXIS (gate b) b s = NPY_RAVEL_AXIS Legacy_Only b s"
    and "NPY_MAXARGS (gate b) b s = NPY_MAXARGS Legacy_Only b s"
    and "PyDataType_FLAGS (gate b) b s dtype =
           npy_uint64 (unsigned_char (member_flags b s (host_PyArray_DescrProto b) dtype))"
  using assms by simp_all

lemma dual_path_current_branch:
  assumes "gate b = Dual_Path" and "PyArray_RUNTIME_VERSION b s \<ge> NPY_2_0_API_VERSION b"
  shows "NPY_DEFAULT_INT (gate b) b s = NPY_DEFAULT_INT New_Only b s"
    and "NPY_MAXARGS (gate b) b s = NPY_MAXARGS New_Only b s"
    and "PyDataType_FLAGS (gate b) b s dtype = PyDataType_FLAGS New_Only b s dtype"
    and "NPY_RAVEL_AXIS (gate b) b s = - 1"
    and "NPY_RAVEL_AXIS (gate b) b s = NPY_RAVEL_AXIS New_Only b s \<longleftrightarrow> NPY_MIN_INT b = - 1"
  using assms by auto

text \<open>
  C1. A dual-path build under a runtime at the threshold, on a platform whose
  \<open>NPY_MIN_INT\<close> is \<open>-2147483648\<close>: \<open>NPY_RAVEL_AXIS\<close> is \<open>-1\<close>, while the new-only
  group defines it as \<open>NPY_MIN_INT\<close>, in a new-only build and in the same headers alike.
  The dual path does not return the value of the new-only path here.
\<close>

theorem NPY_RAVEL_AXIS_dual_not_new_only:
  "gate dual_build = Dual_Path \<and> gate new_build = New_Only
   \<and> PyArray_RUNTIME_VERSION dual_build current_process \<ge> NPY_2_0_API_VERSION dual_build
   \<and> NPY_RAVEL_AXIS (gate dual_build) dual_build current_process = - 1
   \<and> NPY_RAVEL_AXIS (gate new_build) new_build current_process = - 2147483648
   \<and> NPY_RAVEL_AXIS New_Only dual_build current_process = - 2147483648"
  by (simp add: gate_dual_build gate_new_build runtime_dual_current threshold_dual_build)
    (simp add: new_build_def dual_build_def)

section \<open>The flags accessor\<close>

lemma unat_npy_uint64: "unat (npy_uint64 c) = unat c"
proof -
  have "unat c < 2 ^ 8"
    using unsigned_less [of c, where 'a = nat] by simp
  also have "(2::nat) ^ 8 \<le> 2 ^ 64" by simp
  finally have "take_bit 64 (unat c) = unat c"
    by (simp add: take_bit_nat_eq_self)
  then show ?thesis
    by (simp add: npy_uint64_def unsigned_ucast_eq)
qed

lemma unat_unsigned_char: "unat (unsigned_char v) = v mod 256"
  by (simp add: unsigned_char_def unat_of_nat)

lemma flags_value: "unat (npy_uint64 (unsigned_char v)) = v mod 256"
  by (simp add: unat_npy_uint64 unat_unsigned_char)

text \<open>
  C10. In each of the three groups, and in both branches of the dual one,
  \<open>PyDataType_FLAGS\<close> is the member \<open>flags\<close> of one of the two descriptor structs, cut
  to an \<open>unsigned char\<close> and then widened to 64 bits: the result is the member's value
  modulo 256 and lies between 0 and 255.
\<close>

theorem PyDataType_FLAGS_range:
  "(\<exists>d. (d = host_PyArray_Descr b \<or> d = host_PyArray_DescrProto b)
        \<and> PyDataType_FLAGS p b s dtype = npy_uint64 (unsigned_char (member_flags b s d dtype))
        \<and> unat (PyDataType_FLAGS p b s dtype) = member_flags b s d dtype mod 256)
   \<and> unat (PyDataType_FLAGS p b s dtype) \<le> 255"
proof (cases p)
  case New_Only
  then show ?thesis
    by (auto simp: flags_value intro!: exI [of _ "host_PyArray_Descr b"])
next
  case Legacy_Only
  then show ?thesis
    by (auto simp: flags_value intro!: exI [of _ "host_PyArray_Descr b"])
next
  case Dual_Path
  show ?thesis
  proof (cases "PyArray_RUNTIME_VERSION b s \<ge> NPY_2_0_API_VERSION b")
    case True
    with Dual_Path show ?thesis
      by (auto simp: flags_value intro!: exI [of _ "host_PyArray_Descr b"])
  next
    case False
    with Dual_Path show ?thesis
      by (auto simp: flags_value intro!: exI [of _ "host_PyArray_DescrProto b"])
  qed
qed

text \<open>
  C4. Take a legacy-only build and a dual-path build on the same platform, where the
  struct that the dual build's headers call \<open>PyArray_DescrProto\<close> declares \<open>flags\<close> as
  the legacy build's \<open>PyArray_Descr\<close> does (the 1.x layout). Under a runtime below the
  threshold both builds extract the same value from every descriptor in every memory.
\<close>

theorem PyDataType_FLAGS_cross_path:
  assumes "gate bl = Legacy_Only" and "gate bd = Dual_Path"
    and "PyArray_RUNTIME_VERSION bd s < NPY_2_0_API_VERSION bd"
    and "host_PyArray_DescrProto bd = host_PyArray_Descr bl"
    and "host_byte_order bd = host_byte_order bl"
  shows "PyDataType_FLAGS (gate bd) bd s dtype = PyDataType_FLAGS (gate bl) bl s dtype"
  using assms by (simp add: member_flags_def)

theorem PyDataType_FLAGS_cross_path_witness:
  "gate legacy_build = Legacy_Only \<and> gate dual_build = Dual_Path
   \<and> PyArray_RUNTIME_VERSION dual_build legacy_process < NPY_2_0_API_VERSION dual_build
   \<and> host_PyArray_DescrProto dual_build = host_PyArray_Descr legacy_build
   \<and> host_byte_order dual_build = host_byte_order legacy_build
   \<and> PyDataType_FLAGS (gate dual_build) dual_build legacy_process 1000 = 0x1B
   \<and> PyDataType_FLAGS (gate legacy_build) legacy_build legacy_process 1000 = 0x1B"
proof -
  have rt: "PyArray_RUNTIME_VERSION dual_build legacy_process < NPY_2_0_API_VERSION dual_build"
    by (simp add: runtime_dual_legacy threshold_dual_build)
  have lay: "host_PyArray_DescrProto dual_build = host_PyArray_Descr legacy_build"
    by (simp add: dual_build_def legacy_build_def)
  have bo: "host_byte_order dual_build = host_byte_order legacy_build"
    by (simp add: dual_build_def legacy_build_def)
  have v: "PyDataType_FLAGS (gate legacy_build) legacy_build legacy_process 1000 = 0x1B"
    unfolding gate_legacy_build by (rule flags_legacy_example)
  have "PyDataType_FLAGS (gate dual_build) dual_build legacy_process 1000
        = PyDataType_FLAGS (gate legacy_build) legacy_build legacy_process 1000"
    by (rule PyDataType_FLAGS_cross_path [OF gate_legacy_build gate_dual_build rt lay bo])
  then have d: "PyDataType_FLAGS (gate dual_build) dual_build legacy_process 1000 = 0x1B"
    using v by (rule trans)
  show ?thesis
    by (intro conjI gate_legacy_build gate_dual_build rt lay bo d v)
qed

text \<open>The layout matters: read through the 2.x struct, the same descriptor gives 63.\<close>

lemma load_le_numeral:
  "load_le m a (numeral k) = unat (m a) + 256 * load_le m (Suc a) (pred_numeral k)"
  by (simp add: numeral_eq_Suc)

lemma load_example: "load_le example_mem 1032 8 = 319"
  by (simp add: load_le_numeral example_mem_def)

lemma flags_current_layout_example:
  "PyDataType_FLAGS Dual_Path dual_build current_process 1000 = 0x3F"
proof -
  have "member_flags dual_build current_process (host_PyArray_Descr dual_build) 1000 = 319"
    using load_example
    by (simp add: member_flags_def dual_build_def current_process_def current_layout_def)
  then show ?thesis
    by (simp add: runtime_dual_current threshold_dual_build unsigned_char_def npy_uint64_def)
qed

section \<open>The aliases of the legacy-only group\<close>

lemma legacy_aliases:
  assumes "gate b = Legacy_Only"
  shows "NPY_NTYPES (gate b) b = host_NPY_NTYPES_LEGACY b"
    and "PyArray_DescrProto (gate b) b = host_PyArray_Descr b"
  using assms by simp_all

lemma aliases_only_in_legacy_group:
  "defined_by b Sym_NPY_NTYPES = (if gate b = Legacy_Only then [Legacy_Only] else [])"
  "defined_by b Sym_PyArray_DescrProto = (if gate b = Legacy_Only then [Legacy_Only] else [])"
  by (cases "gate b"; simp add: defined_by_def)+

text \<open>
  C6. A legacy-only build against headers that declare \<open>NPY_NTYPES\<close> (as 24) and
  \<open>PyArray_Descr\<close> and do not declare \<open>NPY_NTYPES_LEGACY\<close>: after the header, the name
  \<open>PyArray_DescrProto\<close> denotes the struct \<open>PyArray_Descr\<close>, and the name \<open>NPY_NTYPES\<close>
  denotes nothing, because line 127 replaces it by the undeclared \<open>NPY_NTYPES_LEGACY\<close>.
\<close>

theorem NPY_NTYPES_alias_on_legacy_headers:
  "gate legacy_build = Legacy_Only
   \<and> host_NPY_NTYPES legacy_build = Some 24
   \<and> host_NPY_NTYPES_LEGACY legacy_build = None
   \<and> NPY_NTYPES (gate legacy_build) legacy_build = None
   \<and> PyArray_DescrProto (gate legacy_build) legacy_build = host_PyArray_Descr legacy_build"
  by (simp add: gate_legacy_build) (simp add: legacy_build_def)

section \<open>The initialisation helper and the runtime version\<close>

lemma import_calls_imported:
  "PyArray_API s \<noteq> 0 \<Longrightarrow> import_calls imp n s = (replicate n 0, s)"
  by (induction n) (simp_all add: PyArray_ImportNumPyAPI_def)

lemma call_effect_imported:
  "PyArray_API s \<noteq> 0 \<Longrightarrow> call_effect imp c s = s"
  by (cases c) (simp_all add: PyArray_ImportNumPyAPI_def)

text \<open>
  C8. \<open>PyArray_ImportNumPyAPI\<close> runs the import macro only when \<open>PyArray_API\<close> is
  \<open>NULL\<close>, and then returns what the macro returns, or 0 when the macro falls through.
  When the table is set it returns 0 and leaves the state as it is, whatever the macro
  would do; so any number of calls after an import that set the table return 0 and change
  nothing.
\<close>

theorem PyArray_ImportNumPyAPI_redundant:
  "(PyArray_API s \<noteq> 0 \<longrightarrow> PyArray_ImportNumPyAPI imp s = (0, s))
   \<and> (PyArray_API s = 0 \<longrightarrow>
        PyArray_ImportNumPyAPI imp s =
          (case imp (- 1) s of (Some r, s') \<Rightarrow> (r, s') | (None, s') \<Rightarrow> (0, s')))
   \<and> (PyArray_API s \<noteq> 0 \<longrightarrow> import_calls imp n s = (replicate n 0, s))"
  by (simp add: import_calls_imported) (simp add: PyArray_ImportNumPyAPI_def)

theorem PyArray_ImportNumPyAPI_redundant_witness:
  "PyArray_API current_process \<noteq> 0 \<and> PyArray_API fresh_process = 0
   \<and> PyArray_ImportNumPyAPI failing_import current_process = (0, current_process)
   \<and> import_calls failing_import 3 current_process = ([0, 0, 0], current_process)
   \<and> PyArray_ImportNumPyAPI failing_import fresh_process = (- 1, fresh_process)
   \<and> fst (PyArray_ImportNumPyAPI example_import fresh_process) = 0
   \<and> PyArray_API (snd (PyArray_ImportNumPyAPI example_import fresh_process)) = 4096"
  using PyArray_ImportNumPyAPI_redundant [of current_process failing_import 3]
    PyArray_ImportNumPyAPI_redundant [of fresh_process failing_import 0]
    PyArray_ImportNumPyAPI_redundant [of fresh_process example_import 0]
  by (simp add: current_process_def fresh_process_def failing_import_def example_import_def
      numeral_3_eq_3)

text \<open>
  C7. Once \<open>PyArray_API\<close> is set, every read of \<open>PyArray_RUNTIME_VERSION\<close> in any
  sequence of reads, calls of the helper and uses of the accessors gives the value the
  first read gives.
\<close>

theorem PyArray_RUNTIME_VERSION_stable:
  assumes "PyArray_API s \<noteq> 0"
  shows "version_reads b imp cs s =
           replicate (length (filter is_read cs)) (PyArray_RUNTIME_VERSION b s)
       \<and> (\<forall>v \<in> set (version_reads b imp cs s). v = PyArray_RUNTIME_VERSION b s)"
proof -
  have "version_reads b imp cs s =
          replicate (length (filter is_read cs)) (PyArray_RUNTIME_VERSION b s)"
    using assms by (induction cs) (simp_all add: call_effect_imported)
  then show ?thesis by simp
qed

theorem PyArray_RUNTIME_VERSION_stable_witness:
  "PyArray_API current_process \<noteq> 0
   \<and> version_reads dual_build example_import
        [Read_RUNTIME_VERSION, Call_ImportNumPyAPI, Use_FLAGS 1000, Read_RUNTIME_VERSION,
         Use_RAVEL_AXIS, Read_RUNTIME_VERSION] current_process = [18, 18, 18]"
proof -
  have a: "PyArray_API current_process \<noteq> 0"
    by (simp add: current_process_def)
  show ?thesis
    using PyArray_RUNTIME_VERSION_stable [OF a, of dual_build example_import
        "[Read_RUNTIME_VERSION, Call_ImportNumPyAPI, Use_FLAGS 1000, Read_RUNTIME_VERSION,
          Use_RAVEL_AXIS, Read_RUNTIME_VERSION]"] a
    by (simp add: runtime_dual_current numeral_3_eq_3)
qed

text \<open>Without the import before the first read, the helper in between changes the value.\<close>

lemma version_reads_before_import:
  "version_reads dual_build example_import
     [Read_RUNTIME_VERSION, Call_ImportNumPyAPI, Read_RUNTIME_VERSION] fresh_process = [0, 18]"
  by (simp add: PyArray_ImportNumPyAPI_def example_import_def fresh_process_def
      PyArray_RUNTIME_VERSION_def dual_build_def)

end
